theory Spec2Isabelle
  imports Complex_Main "HOL-Library.Word"
begin

section \<open>Values\<close>

text \<open>
  The dashboard (\<^verbatim>\<open>stocks_dashboard.py\<close>) is a pandas pipeline: a price table is
  downloaded, normalised, extended by two moving averages, summarised and shown.

  Floats. A finite 64-bit float is idealised as the real number it stands for: rounding and
  overflow are not modelled. The values that are not numbers are kept apart, since
  division produces them. IEEE has two zeros, and the division by a cell of a table tells
  them apart: a cell that is \<^verbatim>\<open>-0.0\<close> is \<open>NegZero\<close>, a cell that is \<^verbatim>\<open>0.0\<close> is \<open>Finite 0\<close>.
  What an operation returns is given by its value: a zero that is returned is written
  \<open>Finite 0\<close> whatever its sign. (In this program every divisor is a cell, so that the sign
  of a returned zero shows in nothing but the way the zero prints.)
\<close>

datatype float64 = Finite real | NegZero | PosInf | NegInf | NaN

fun as_real :: "float64 \<Rightarrow> real" where
  "as_real (Finite x) = x"
| "as_real _ = 0"

fun by_value :: "float64 \<Rightarrow> float64" where
  "by_value NegZero = Finite 0"
| "by_value x = x"

fun is_inf :: "float64 \<Rightarrow> bool" where
  "is_inf PosInf = True"
| "is_inf NegInf = True"
| "is_inf _ = False"

text \<open>The sign of a float that is not NaN: of the zero \<^verbatim>\<open>-0.0\<close> it is negative.\<close>

fun negative :: "float64 \<Rightarrow> bool" where
  "negative (Finite x) = (x < 0)"
| "negative NegZero = True"
| "negative NegInf = True"
| "negative _ = False"

definition infinity :: "bool \<Rightarrow> float64" where
  "infinity neg = (if neg then NegInf else PosInf)"

text \<open>IEEE addition, subtraction, multiplication and division. No exception is raised:
  numpy warns and returns an infinity or NaN.\<close>

definition fadd :: "float64 \<Rightarrow> float64 \<Rightarrow> float64" where
  "fadd a b =
     (if a = NaN \<or> b = NaN then NaN
      else if is_inf a then (if is_inf b \<and> b \<noteq> a then NaN else a)
      else if is_inf b then b
      else Finite (as_real a + as_real b))"

definition fsub :: "float64 \<Rightarrow> float64 \<Rightarrow> float64" where
  "fsub a b =
     (if a = NaN \<or> b = NaN then NaN
      else if is_inf a then (if b = a then NaN else a)
      else if is_inf b then infinity (\<not> negative b)
      else Finite (as_real a - as_real b))"

definition fmul :: "float64 \<Rightarrow> float64 \<Rightarrow> float64" where
  "fmul a b =
     (if a = NaN \<or> b = NaN then NaN
      else if is_inf a \<or> is_inf b
      then (if \<not> is_inf a \<and> as_real a = 0 \<or> \<not> is_inf b \<and> as_real b = 0 then NaN
            else infinity (negative a \<noteq> negative b))
      else Finite (as_real a * as_real b))"

definition fdiv :: "float64 \<Rightarrow> float64 \<Rightarrow> float64" where
  "fdiv a b =
     (if a = NaN \<or> b = NaN then NaN
      else if is_inf a then (if is_inf b then NaN else infinity (negative a \<noteq> negative b))
      else if is_inf b then Finite 0
      else if as_real b = 0
      then (if as_real a = 0 then NaN else infinity (negative a \<noteq> negative b))
      else Finite (as_real a / as_real b))"

text \<open>The greater and the lesser of two floats that are not NaN, by value.\<close>

definition fmax :: "float64 \<Rightarrow> float64 \<Rightarrow> float64" where
  "fmax a b =
     (if a = PosInf \<or> b = NegInf then a
      else if b = PosInf \<or> a = NegInf then b
      else Finite (max (as_real a) (as_real b)))"

definition fmin :: "float64 \<Rightarrow> float64 \<Rightarrow> float64" where
  "fmin a b =
     (if a = NegInf \<or> b = PosInf then a
      else if b = NegInf \<or> a = PosInf then b
      else Finite (min (as_real a) (as_real b)))"

text \<open>Integers. An \<^verbatim>\<open>int64\<close> is a word of 64 bits, read as a signed number: its sums and
  differences wrap. \<^verbatim>\<open>float(n)\<close> is the number it stands for.\<close>

type_synonym int64 = "64 word"

definition of_int64 :: "int64 \<Rightarrow> float64" where
  "of_int64 n = Finite (real_of_int (sint n))"

text \<open>The exceptions that the modelled code paths raise.\<close>

datatype error =
    KeyError string
  | IndexError
  | TypeError
  | ValueError
  | AttributeError
  | ZeroDivisionError
  | DataError
  | DownloadError string

section \<open>Data frames\<close>

text \<open>
  A column of a frame is a column of floats, whose cells may be NaN (pandas' missing value),
  a column of \<^verbatim>\<open>int64\<close> such as a volume, or a column of timestamps, which carries its time
  zone (\<open>None\<close> for a zone-naive column) and the instants in microseconds.

  The index of a frame is either the \<^verbatim>\<open>DatetimeIndex\<close> that the provider returns (its name,
  its time zone, its instants) or the \<^verbatim>\<open>RangeIndex\<close> \<open>0..n-1\<close> that \<^verbatim>\<open>reset_index\<close> leaves.

  The columns are a map from labels: labels are flat and unique
  (\<open>fetch_stock_data\<close> flattens the two-level labels of a download before anything else
  sees the frame). On such a frame \<^verbatim>\<open>data['Close']\<close> is a one-dimensional Series and
  \<^verbatim>\<open>.iloc[i]\<close>, \<^verbatim>\<open>.max()\<close>, \<^verbatim>\<open>.min()\<close>, \<^verbatim>\<open>.sum()\<close> are scalars, so that the source's
  \<^verbatim>\<open>isinstance(..., pd.Series)\<close> and \<^verbatim>\<open>isinstance(..., pd.DataFrame)\<close> branches are not taken.
\<close>

datatype column =
    Floats "float64 list"
  | Ints "int64 list"
  | Stamps "string option" "int list"

datatype index =
    DatetimeIndex "string option" "string option" "int list"
  | RangeIndex nat

record dataframe =
  index :: index
  columns :: "string \<rightharpoonup> column"

fun column_len :: "column \<Rightarrow> nat" where
  "column_len (Floats xs) = length xs"
| "column_len (Ints ns) = length ns"
| "column_len (Stamps tz ts) = length ts"

fun index_len :: "index \<Rightarrow> nat" where
  "index_len (DatetimeIndex name tz ts) = length ts"
| "index_len (RangeIndex n) = n"

text \<open>Sequencing: an exception ends the computation, a value is passed on.\<close>

fun and_then :: "error + 'a \<Rightarrow> ('a \<Rightarrow> error + 'b) \<Rightarrow> error + 'b" where
  "and_then (Inl e) f = Inl e"
| "and_then (Inr x) f = f x"

text \<open>\<^verbatim>\<open>data[label]\<close>: the column, or \<^verbatim>\<open>KeyError\<close>.\<close>

definition getitem :: "dataframe \<Rightarrow> string \<Rightarrow> error + column" where
  "getitem data label =
     (case columns data label of None \<Rightarrow> Inl (KeyError label) | Some c \<Rightarrow> Inr c)"

text \<open>\<^verbatim>\<open>data[label] = series\<close>, for a series on the frame's own index: the column is replaced
  or added, nothing else changes.\<close>

definition setitem :: "dataframe \<Rightarrow> string \<Rightarrow> column \<Rightarrow> dataframe" where
  "setitem data label c = data\<lparr>columns := (columns data)(label \<mapsto> c)\<rparr>"

text \<open>\<^verbatim>\<open>data.empty\<close>: an axis of length zero.\<close>

definition frame_empty :: "dataframe \<Rightarrow> bool" where
  "frame_empty data \<longleftrightarrow> index_len (index data) = 0 \<or> columns data = Map.empty"

text \<open>
  The reductions of a Series, each followed by the \<^verbatim>\<open>float(...)\<close> that the code applies to it.
  On floats pandas skips the cells that are NaN: the maximum and the minimum of no cell at
  all are NaN, the sum of no cell is zero. On \<^verbatim>\<open>int64\<close> the sum is the sum of the machine
  integers, which wraps. The greatest timestamp is a timestamp, of which there is no
  \<^verbatim>\<open>float\<close>, and timestamps have no sum: both are a \<^verbatim>\<open>TypeError\<close>.
\<close>

definition present :: "float64 list \<Rightarrow> float64 list" where
  "present xs = map by_value (filter (\<lambda>x. x \<noteq> NaN) xs)"

fun series_max :: "column \<Rightarrow> error + float64" where
  "series_max (Floats xs) =
     Inr (case present xs of [] \<Rightarrow> NaN | y # ys \<Rightarrow> fold fmax ys y)"
| "series_max (Ints ns) =
     Inr (case map sint ns of [] \<Rightarrow> NaN | m # ms \<Rightarrow> Finite (real_of_int (fold max ms m)))"
| "series_max (Stamps tz ts) = Inl TypeError"

fun series_min :: "column \<Rightarrow> error + float64" where
  "series_min (Floats xs) =
     Inr (case present xs of [] \<Rightarrow> NaN | y # ys \<Rightarrow> fold fmin ys y)"
| "series_min (Ints ns) =
     Inr (case map sint ns of [] \<Rightarrow> NaN | m # ms \<Rightarrow> Finite (real_of_int (fold min ms m)))"
| "series_min (Stamps tz ts) = Inl TypeError"

fun series_sum :: "column \<Rightarrow> error + float64" where
  "series_sum (Floats xs) = Inr (fold (\<lambda>x s. fadd s x) (present xs) (Finite 0))"
| "series_sum (Ints ns) = Inr (of_int64 (fold (\<lambda>n s. s + n) ns 0))"
| "series_sum (Stamps tz ts) = Inl TypeError"

section \<open>Summary metrics\<close>

text \<open>
  \<^verbatim>\<open>calculate_metrics(data)\<close> returns the tuple
  \<^verbatim>\<open>(last_close, change, pct_change, high, low, volume)\<close>. The steps are in the order of the
  source, so that the first exception raised is the one returned:
  \<^item> \<^verbatim>\<open>data['Close'].iloc[-1]\<close> and \<^verbatim>\<open>.iloc[0]\<close> raise \<^verbatim>\<open>KeyError\<close> without the column and
    \<^verbatim>\<open>IndexError\<close> on a column of no rows;
  \<^item> \<^verbatim>\<open>last_close - prev_close\<close> and \<^verbatim>\<open>change / prev_close\<close> are operations of numpy scalars:
    of floats, or of \<^verbatim>\<open>int64\<close>, whose difference wraps and whose quotient is the quotient
    of the two as floats (the quotient of a time difference by a timestamp is a
    \<^verbatim>\<open>TypeError\<close>);
  \<^item> \<^verbatim>\<open>data['High'].max()\<close>, \<^verbatim>\<open>data['Low'].min()\<close>, \<^verbatim>\<open>data['Volume'].sum()\<close>;
  \<^item> the six \<^verbatim>\<open>float(...)\<close> conversions.
\<close>

record metrics =
  last_close :: float64
  change :: float64
  pct_change :: float64
  high :: float64
  low :: float64
  volume :: float64

text \<open>Lines 38 to 48 on a Close column that has a row: \<open>last_close\<close>, \<open>change\<close> and
  \<open>pct_change\<close>, as the floats that line 62 makes of them.\<close>

fun price_change :: "column \<Rightarrow> error + float64 \<times> float64 \<times> float64" where
  "price_change (Floats cs) =
     (let last_close = last cs;
          prev_close = hd cs;
          change = fsub last_close prev_close;
          pct_change = fmul (fdiv change prev_close) (Finite 100)
      in Inr (by_value last_close, change, pct_change))"
| "price_change (Ints ns) =
     (let last_close = last ns;
          prev_close = hd ns;
          change = last_close - prev_close;
          pct_change = fmul (fdiv (of_int64 change) (of_int64 prev_close)) (Finite 100)
      in Inr (of_int64 last_close, of_int64 change, pct_change))"
| "price_change (Stamps tz ts) = Inl TypeError"

definition calculate_metrics :: "dataframe \<Rightarrow> error + metrics" where
  "calculate_metrics data =
     and_then (getitem data ''Close'') (\<lambda>close.
       if column_len close = 0 then Inl IndexError
       else and_then (price_change close) (\<lambda>(last_close, change, pct_change).
            and_then (getitem data ''High'') (\<lambda>high_col.
            and_then (getitem data ''Low'') (\<lambda>low_col.
            and_then (getitem data ''Volume'') (\<lambda>volume_col.
            and_then (series_sum volume_col) (\<lambda>volume.
            and_then (series_max high_col) (\<lambda>high.
            and_then (series_min low_col) (\<lambda>low.
              Inr \<lparr>last_close = last_close, change = change, pct_change = pct_change,
                   high = high, low = low, volume = volume\<rparr>))))))))"

section \<open>Normalisation\<close>

text \<open>
  \<^verbatim>\<open>process_data(data)\<close>, line by line. \<^verbatim>\<open>data.index.tzinfo\<close> exists on a \<^verbatim>\<open>DatetimeIndex\<close>
  only: a \<^verbatim>\<open>RangeIndex\<close> has no such attribute. \<^verbatim>\<open>tz_localize\<close> reads the zone-naive wall
  clock as a time of the zone given, \<^verbatim>\<open>tz_convert\<close> keeps the instants and changes the zone
  they are shown in.
\<close>

fun tzinfo :: "index \<Rightarrow> error + string option" where
  "tzinfo (DatetimeIndex name tz ts) = Inr tz"
| "tzinfo (RangeIndex n) = Inl AttributeError"

fun tz_localize :: "string \<Rightarrow> index \<Rightarrow> error + index" where
  "tz_localize zone (DatetimeIndex name None ts) = Inr (DatetimeIndex name (Some zone) ts)"
| "tz_localize zone (DatetimeIndex name (Some z) ts) = Inl TypeError"
| "tz_localize zone (RangeIndex n) = Inl AttributeError"

fun tz_convert :: "string \<Rightarrow> index \<Rightarrow> error + index" where
  "tz_convert zone (DatetimeIndex name (Some z) ts) = Inr (DatetimeIndex name (Some zone) ts)"
| "tz_convert zone (DatetimeIndex name None ts) = Inl TypeError"
| "tz_convert zone (RangeIndex n) = Inl AttributeError"

text \<open>
  \<^verbatim>\<open>data.reset_index(inplace=True)\<close>: the index becomes a column, labelled by the name of the
  index (\<^verbatim>\<open>index\<close> for an index without a name, \<^verbatim>\<open>level_0\<close> when that label is taken), and
  the rows are numbered anew. A label that the frame already has is a \<^verbatim>\<open>ValueError\<close>.
\<close>

fun index_label :: "index \<Rightarrow> string option" where
  "index_label (DatetimeIndex name tz ts) = name"
| "index_label (RangeIndex n) = None"

fun index_column :: "index \<Rightarrow> column" where
  "index_column (DatetimeIndex name tz ts) = Stamps tz ts"
| "index_column (RangeIndex n) = Ints (map of_nat [0..<n])"

definition reset_index :: "dataframe \<Rightarrow> error + dataframe" where
  "reset_index data =
     (let label = (case index_label (index data) of
                     Some l \<Rightarrow> l
                   | None \<Rightarrow> if columns data ''index'' = None then ''index'' else ''level_0'')
      in if columns data label \<noteq> None then Inl ValueError
         else Inr \<lparr>index = RangeIndex (index_len (index data)),
                   columns = (columns data)(label \<mapsto> index_column (index data))\<rparr>)"

text \<open>
  \<^verbatim>\<open>data.rename(columns={old: new}, inplace=True)\<close>; a label that is absent is left alone.
  (With a column \<open>new\<close> already there pandas would keep both under one label; frames
  of unique labels have no such case, here the renamed column takes the label.)
\<close>

definition rename :: "string \<Rightarrow> string \<Rightarrow> dataframe \<Rightarrow> dataframe" where
  "rename old new data =
     (case columns data old of
        None \<Rightarrow> data
      | Some c \<Rightarrow> data\<lparr>columns := ((columns data)(old := None))(new \<mapsto> c)\<rparr>)"

definition process_data :: "dataframe \<Rightarrow> error + dataframe" where
  "process_data data =
     and_then (tzinfo (index data)) (\<lambda>tz.
     and_then (if tz = None then tz_localize ''UTC'' (index data) else Inr (index data)) (\<lambda>utc.
     and_then (tz_convert ''US/Eastern'' utc) (\<lambda>eastern.
     and_then (reset_index (data\<lparr>index := eastern\<rparr>)) (\<lambda>data.
       Inr (rename ''Date'' ''Datetime'' data)))))"

section \<open>Moving averages\<close>

text \<open>
  Modelled from the spec: the moving averages are computed by the \<^verbatim>\<open>ta\<close> package
  (\<^verbatim>\<open>SMAIndicator\<close>, \<^verbatim>\<open>EMAIndicator\<close>), which is not among the sources. What the package is
  given is the Close column as a sequence of numbers, some of which may be missing, and
  what it returns is a column of floats, NaN where the average is undefined. The spec
  speaks of numbers only: here a cell that is NaN or an infinity counts as missing.
\<close>

fun observed :: "float64 \<Rightarrow> real option" where
  "observed (Finite x) = Some x"
| "observed NegZero = Some 0"
| "observed _ = None"

text \<open>Modelled from the spec: the Close column as the \<^verbatim>\<open>ta\<close> package reads it; it has no
  average of timestamps (pandas refuses with a \<^verbatim>\<open>DataError\<close>).\<close>

fun closes :: "column \<Rightarrow> error + real option list" where
  "closes (Floats xs) = Inr (map observed xs)"
| "closes (Ints ns) = Inr (map (\<lambda>n. Some (real_of_int (sint n))) ns)"
| "closes (Stamps tz ts) = Inl DataError"

text \<open>Modelled from the spec: a value of an indicator as a cell, NaN where it is undefined.\<close>

fun indicator_cell :: "real option \<Rightarrow> float64" where
  "indicator_cell None = NaN"
| "indicator_cell (Some x) = Finite x"

text \<open>
  Modelled from the spec: the mean of a window (spec 4.3: the simple moving average of
  Close over a trailing window of 20 bars, undefined for the first 19 rows). It is
  undefined as long as the window holds fewer numbers than its length.
\<close>

definition window_mean :: "nat \<Rightarrow> real option list \<Rightarrow> real option" where
  "window_mean window win =
     (let known = [x. Some x \<leftarrow> win]
      in if window \<le> length known then Some (sum_list known / real (length known))
         else None)"

text \<open>Modelled from the spec: the pass of the trailing window over the cells of the column,
  for the simple moving average of the \<^verbatim>\<open>ta\<close> package; \<open>win\<close> is the window so far, the
  newest cell last.\<close>

fun rolling_mean :: "nat \<Rightarrow> real option list \<Rightarrow> real option list \<Rightarrow> real option list" where
  "rolling_mean window win [] = []"
| "rolling_mean window win (x # xs) =
     (let win' = (if length win < window then win else tl win) @ [x]
      in window_mean window win' # rolling_mean window win' xs)"

text \<open>Modelled from the spec: \<^verbatim>\<open>SMAIndicator(close=close, window=window).sma_indicator()\<close> of
  the \<^verbatim>\<open>ta\<close> package, the pass begun with an empty window.\<close>

definition sma_indicator :: "nat \<Rightarrow> real option list \<Rightarrow> real option list" where
  "sma_indicator window close = rolling_mean window [] close"

text \<open>
  Modelled from the spec: the pass of the exponential moving average (spec 4.3: smoothing
  factor \<open>2 / (window + 1)\<close>, seeded from the first available window by the standard
  convention, undefined for the first \<open>window - 1\<close> rows). The average is undefined until
  \<open>window\<close> numbers have been seen; with the last of them it is seeded with their mean;
  from then on every number \<open>x\<close> moves the average \<open>e\<close> to \<open>\<alpha> * x + (1 - \<alpha>) * e\<close>.
  The spec says nothing of a missing Close: here it leaves the average as it is.
  The state of the pass: \<open>seen\<close>, the numbers of the first window so far, and the average,
  once there is one.
\<close>

fun ema_pass :: "real \<Rightarrow> nat \<Rightarrow> real list \<Rightarrow> real option \<Rightarrow> real option list \<Rightarrow> real option list" where
  "ema_pass \<alpha> window seen average [] = []"
| "ema_pass \<alpha> window seen average (None # xs) =
     average # ema_pass \<alpha> window seen average xs"
| "ema_pass \<alpha> window seen (Some e) (Some x # xs) =
     (let e' = \<alpha> * x + (1 - \<alpha>) * e
      in Some e' # ema_pass \<alpha> window seen (Some e') xs)"
| "ema_pass \<alpha> window seen None (Some x # xs) =
     (let seen' = seen @ [x]
      in if window \<le> length seen'
         then (let e' = sum_list seen' / real (length seen')
               in Some e' # ema_pass \<alpha> window seen' (Some e') xs)
         else None # ema_pass \<alpha> window seen' None xs)"

text \<open>Modelled from the spec: \<^verbatim>\<open>EMAIndicator(close=close, window=window).ema_indicator()\<close> of
  the \<^verbatim>\<open>ta\<close> package, the pass begun with nothing seen and no average.\<close>

definition ema_indicator :: "nat \<Rightarrow> real option list \<Rightarrow> real option list" where
  "ema_indicator window close = ema_pass (2 / (real window + 1)) window [] None close"

text \<open>
  \<^verbatim>\<open>add_technical_indicators(data)\<close>. On a frame of flat, unique labels \<^verbatim>\<open>data['Close']\<close> is
  one-dimensional, so neither flattening branch of the source is taken. When the
  indicators raise, nothing has been assigned.
\<close>

definition add_technical_indicators :: "dataframe \<Rightarrow> error + dataframe" where
  "add_technical_indicators data =
     and_then (getitem data ''Close'') (\<lambda>close_series.
     and_then (closes close_series) (\<lambda>close.
       Inr (setitem
              (setitem data ''SMA_20'' (Floats (map indicator_cell (sma_indicator 20 close))))
              ''EMA_20'' (Floats (map indicator_cell (ema_indicator 20 close))))))"

section \<open>Download\<close>

text \<open>
  The provider is a parameter: \<^verbatim>\<open>yf.download\<close> maps the keyword arguments of a call to a
  table or to an exception. A call names either a window (\<^verbatim>\<open>start\<close>, \<^verbatim>\<open>end\<close>) or a
  period. Times are microseconds; \<^verbatim>\<open>datetime.now()\<close> is the parameter \<open>now\<close>.

  The columns of a download are labelled by the field alone or by the pair of field and
  ticker (\<^verbatim>\<open>pd.MultiIndex\<close>); \<open>fetch_stock_data\<close> keeps the first level.
\<close>

record download_args =
  dl_ticker :: string
  dl_start :: "int option"
  dl_end :: "int option"
  dl_period :: "string option"
  dl_interval :: string
  dl_auto_adjust :: bool

datatype download_columns =
    Index "(string \<times> column) list"
  | MultiIndex "((string \<times> string) \<times> column) list"

record download =
  dl_index :: index
  dl_columns :: download_columns

type_synonym provider = "download_args \<Rightarrow> error + download"

definition timedelta_days :: "int \<Rightarrow> int" where
  "timedelta_days d = d * 86400 * 1000000"

fun get_level_values_0 :: "download_columns \<Rightarrow> (string \<times> column) list" where
  "get_level_values_0 (Index cols) = cols"
| "get_level_values_0 (MultiIndex cols) = map (\<lambda>((field, ticker), c). (field, c)) cols"

definition flatten :: "download \<Rightarrow> dataframe" where
  "flatten d = \<lparr>index = dl_index d, columns = map_of (get_level_values_0 (dl_columns d))\<rparr>"

text \<open>The arguments of the one call of \<^verbatim>\<open>yf.download\<close> that \<^verbatim>\<open>fetch_stock_data\<close> makes.\<close>

definition download_request :: "int \<Rightarrow> string \<Rightarrow> string \<Rightarrow> string \<Rightarrow> download_args" where
  "download_request now ticker period interval =
     (let end_date = now in
      if period = ''1wk''
      then (let start_date = end_date - timedelta_days 7
            in \<lparr>dl_ticker = ticker, dl_start = Some start_date, dl_end = Some end_date,
                dl_period = None, dl_interval = interval, dl_auto_adjust = False\<rparr>)
      else \<lparr>dl_ticker = ticker, dl_start = None, dl_end = None,
            dl_period = Some period, dl_interval = interval, dl_auto_adjust = False\<rparr>)"

definition fetch_stock_data ::
  "provider \<Rightarrow> int \<Rightarrow> string \<Rightarrow> string \<Rightarrow> string \<Rightarrow> error + dataframe" where
  "fetch_stock_data yf now ticker period interval =
     and_then (yf (download_request now ticker period interval)) (\<lambda>data. Inr (flatten data))"

section \<open>The page\<close>

definition interval_mapping :: "string \<rightharpoonup> string" where
  "interval_mapping =
     map_of [(''1d'', ''1m''), (''1wk'', ''30m''), (''1mo'', ''1d''), (''1y'', ''1wk''),
             (''max'', ''1wk'')]"

text \<open>Line 102: the download behind the Update button; \<^verbatim>\<open>interval_mapping[time_period]\<close>
  raises \<^verbatim>\<open>KeyError\<close> outside the table.\<close>

definition update_fetch :: "provider \<Rightarrow> int \<Rightarrow> string \<Rightarrow> string \<Rightarrow> error + dataframe" where
  "update_fetch yf now ticker time_period =
     (case interval_mapping time_period of
        None \<Rightarrow> Inl (KeyError time_period)
      | Some interval \<Rightarrow> fetch_stock_data yf now ticker time_period interval)"

text \<open>\<^verbatim>\<open>str.upper()\<close> on ASCII text, which the five periods of the select box are.\<close>

definition upper_char :: "char \<Rightarrow> char" where
  "upper_char c =
     (case map_of (zip ''abcdefghijklmnopqrstuvwxyz'' ''ABCDEFGHIJKLMNOPQRSTUVWXYZ'') c of
        None \<Rightarrow> c
      | Some u \<Rightarrow> u)"

definition upper :: "string \<Rightarrow> string" where
  "upper s = map upper_char s"

record layout =
  title :: string
  xaxis_title :: string
  yaxis_title :: string
  height :: nat

text \<open>Lines 134 to 139: \<^verbatim>\<open>fig.update_layout(title=f'{ticker} {time_period.upper()} Chart', ...)\<close>.\<close>

definition update_layout :: "string \<Rightarrow> string \<Rightarrow> layout" where
  "update_layout ticker time_period =
     \<lparr>title = ticker @ '' '' @ upper time_period @ '' Chart'',
      xaxis_title = ''Time'', yaxis_title = ''Price (USD)'', height = 600\<rparr>"

section \<open>The watchlist\<close>

text \<open>
  What the loop puts into the sidebar: \<^verbatim>\<open>st.sidebar.metric\<close> with the symbol, the last price,
  the change and the percentage (the numbers; their formatting to two decimals is not
  modelled), or \<^verbatim>\<open>st.sidebar.write\<close> with the message \<^verbatim>\<open>Error processing {symbol}: {e}\<close>.
\<close>

datatype widget =
    Metric string float64 float64 float64
  | Write string error

definition stock_symbols :: "string list" where
  "stock_symbols = [''AAPL'', ''GOOGL'', ''AMZN'', ''MSFT'']"

text \<open>\<^verbatim>\<open>float(x)\<close> of the last and of the first cell of a column that has a row: the number of
  a cell of floats or of \<^verbatim>\<open>int64\<close>, \<^verbatim>\<open>TypeError\<close> for a timestamp.\<close>

fun float_last :: "column \<Rightarrow> error + float64" where
  "float_last (Floats xs) = Inr (last xs)"
| "float_last (Ints ns) = Inr (of_int64 (last ns))"
| "float_last (Stamps tz ts) = Inl TypeError"

fun float_first :: "column \<Rightarrow> error + float64" where
  "float_first (Floats xs) = Inr (hd xs)"
| "float_first (Ints ns) = Inr (of_int64 (hd ns))"
| "float_first (Stamps tz ts) = Inl TypeError"

text \<open>Division of Python floats: by a zero, of either sign, it raises, unlike the division of
  numpy floats.\<close>

definition py_truediv :: "float64 \<Rightarrow> float64 \<Rightarrow> error + float64" where
  "py_truediv a b =
     (if b = Finite 0 \<or> b = NegZero then Inl ZeroDivisionError else Inr (fdiv a b))"

text \<open>Lines 159 to 173, the body of the \<^verbatim>\<open>try\<close>: last price, change and percentage.\<close>

definition watchlist_quote :: "dataframe \<Rightarrow> error + float64 \<times> float64 \<times> float64" where
  "watchlist_quote real_time_data =
     and_then (getitem real_time_data ''Close'') (\<lambda>close.
       if column_len close = 0 then Inl IndexError else
     and_then (getitem real_time_data ''Open'') (\<lambda>opens.
       if column_len opens = 0 then Inl IndexError else
     and_then (float_last close) (\<lambda>last_price.
     and_then (float_first opens) (\<lambda>open_price.
       (let change = fsub last_price open_price
        in and_then (py_truediv change open_price) (\<lambda>q.
             Inr (by_value last_price, change, fmul q (Finite 100))))))))"

text \<open>
  Lines 155 to 178, one round of the loop: what the round adds to the sidebar, or the
  exception that leaves the round and the loop. The download and \<^verbatim>\<open>process_data\<close> are
  outside the \<^verbatim>\<open>try\<close>; an empty download shows nothing.
\<close>

definition watchlist_round :: "provider \<Rightarrow> int \<Rightarrow> string \<Rightarrow> error + widget list" where
  "watchlist_round yf now symbol =
     and_then (fetch_stock_data yf now symbol ''1d'' ''1m'') (\<lambda>real_time_data.
       if frame_empty real_time_data then Inr []
       else and_then (process_data real_time_data) (\<lambda>real_time_data.
              (case watchlist_quote real_time_data of
                 Inr (last_price, delta, pct) \<Rightarrow> Inr [Metric symbol last_price delta pct]
               | Inl e \<Rightarrow> Inr [Write symbol e])))"

text \<open>Line 154, the loop: the sidebar at the end, and the exception that ended the loop early,
  if one did.\<close>

fun watchlist ::
  "provider \<Rightarrow> int \<Rightarrow> string list \<Rightarrow> widget list \<Rightarrow> widget list \<times> error option" where
  "watchlist yf now [] shown = (shown, None)"
| "watchlist yf now (symbol # symbols) shown =
     (case watchlist_round yf now symbol of
        Inl e \<Rightarrow> (shown, Some e)
      | Inr ws \<Rightarrow> watchlist yf now symbols (shown @ ws))"

section \<open>Example tables\<close>

text \<open>Four one-minute bars, as a download with two-level labels.\<close>

definition four_bars :: "string \<Rightarrow> download" where
  "four_bars ticker =
     \<lparr>dl_index = DatetimeIndex (Some ''Datetime'') (Some ''UTC'')
         [1700000000000000, 1700000060000000, 1700000120000000, 1700000180000000],
      dl_columns = MultiIndex
        [((''Close'', ticker), Floats [Finite 100, Finite 102, Finite 99, Finite 105]),
         ((''High'', ticker), Floats [Finite 101, Finite 103, Finite 102, Finite 106]),
         ((''Low'', ticker), Floats [Finite 98, Finite 100, Finite 97, Finite 99]),
         ((''Open'', ticker), Floats [Finite 99, Finite 100, Finite 102, Finite 99]),
         ((''Volume'', ticker), Ints [1000, 1500, 1200, 2000])]\<rparr>"

text \<open>A canonical table whose Close column is given; the other prices follow it.\<close>

definition table_of_closes :: "real list \<Rightarrow> dataframe" where
  "table_of_closes cs =
     \<lparr>index = RangeIndex (length cs),
      columns = map_of
        [(''Datetime'', Stamps (Some ''US/Eastern'') (map (\<lambda>i. 60000000 * int i) [0..<length cs])),
         (''Open'', Floats (map Finite cs)),
         (''High'', Floats (map (\<lambda>c. Finite (c + 1)) cs)),
         (''Low'', Floats (map (\<lambda>c. Finite (c - 1)) cs)),
         (''Close'', Floats (map Finite cs)),
         (''Volume'', Ints (map (\<lambda>c. 1000) cs))]\<rparr>"

text \<open>A table of one row that has no Close column, and a table of no row and no column.\<close>

definition open_only :: dataframe where
  "open_only = \<lparr>index = RangeIndex 1, columns = [''Open'' \<mapsto> Floats [Finite 100]]\<rparr>"

definition no_columns :: dataframe where
  "no_columns = \<lparr>index = RangeIndex 0, columns = Map.empty\<rparr>"

text \<open>One bar of which the provider has the Close only.\<close>

definition close_only :: download where
  "close_only =
     \<lparr>dl_index = DatetimeIndex (Some ''Datetime'') (Some ''UTC'') [1700000000000000],
      dl_columns = Index [(''Close'', Floats [Finite 100])]\<rparr>"

text \<open>A download of no rows, as the provider returns it when it has no data.\<close>

definition no_bars :: download where
  "no_bars =
     \<lparr>dl_index = DatetimeIndex (Some ''Datetime'') (Some ''UTC'') [],
      dl_columns = Index
        [(''Close'', Floats []), (''High'', Floats []), (''Low'', Floats []),
         (''Open'', Floats []), (''Volume'', Ints [])]\<rparr>"

text \<open>A provider that has four bars for every ticker but one, for which its answer is
  given.\<close>

definition provider_with :: "string \<Rightarrow> error + download \<Rightarrow> provider" where
  "provider_with ticker answer args =
     (if dl_ticker args = ticker then answer else Inr (four_bars (dl_ticker args)))"

section \<open>Properties of the summary\<close>

lemma fsub_Finite [simp]: "fsub (Finite a) (Finite b) = Finite (a - b)"
  by (simp add: fsub_def)

lemma fmul_Finite [simp]: "fmul (Finite a) (Finite b) = Finite (a * b)"
  by (simp add: fmul_def)

lemma fmul_infinity [simp]:
  "fmul PosInf (Finite 100) = PosInf" "fmul NegInf (Finite 100) = NegInf"
  "fmul NaN b = NaN"
  by (simp_all add: fmul_def infinity_def)

lemma fdiv_Finite [simp]:
  "fdiv (Finite a) (Finite b) =
     (if b = 0 then (if a = 0 then NaN else if 0 < a then PosInf else NegInf)
      else Finite (a / b))"
  by (auto simp: fdiv_def infinity_def)

lemma fdiv_NegZero [simp]:
  "fdiv (Finite a) NegZero = (if a = 0 then NaN else if 0 < a then NegInf else PosInf)"
  by (auto simp: fdiv_def infinity_def)

lemma present_Finite [simp]: "present (map Finite xs) = map Finite xs"
  by (induction xs) (simp_all add: present_def)

lemma present_Cons_Finite [simp]: "present (Finite a # xs) = Finite a # present xs"
  by (simp add: present_def)

lemma fold_fmax_Finite: "fold fmax (map Finite ys) (Finite y) = Finite (fold max ys y)"
  by (induction ys arbitrary: y) (simp_all add: fmax_def max.commute)

lemma fold_fmin_Finite: "fold fmin (map Finite ys) (Finite y) = Finite (fold min ys y)"
  by (induction ys arbitrary: y) (simp_all add: fmin_def min.commute)

lemma series_max_Finite:
  "xs \<noteq> [] \<Longrightarrow> series_max (Floats (map Finite xs)) = Inr (Finite (Max (set xs)))"
  using Max.set_eq_fold [where ?'a = real]
  by (cases xs) (simp_all add: fold_fmax_Finite del: fold_simps)

lemma series_min_Finite:
  "xs \<noteq> [] \<Longrightarrow> series_min (Floats (map Finite xs)) = Inr (Finite (Min (set xs)))"
  using Min.set_eq_fold [where ?'a = real]
  by (cases xs) (simp_all add: fold_fmin_Finite del: fold_simps)

lemma fold_plus_sum_list:
  "fold (\<lambda>x s. s + x) xs (a::'a::comm_monoid_add) = a + sum_list xs"
  by (induction xs arbitrary: a) (simp_all add: ac_simps)

lemma signed_take_bit_add_right:
  "signed_take_bit n (a + signed_take_bit n b) = signed_take_bit n (a + (b::int))"
proof -
  have "take_bit (Suc n) (a + signed_take_bit n b)
      = take_bit (Suc n) (take_bit (Suc n) a + take_bit (Suc n) (signed_take_bit n b))"
    by (simp only: take_bit_add)
  also have "take_bit (Suc n) (signed_take_bit n b) = take_bit (Suc n) b"
    by (rule take_bit_signed_take_bit) simp
  also have "take_bit (Suc n) (take_bit (Suc n) a + take_bit (Suc n) b) = take_bit (Suc n) (a + b)"
    by (simp only: take_bit_add)
  finally show ?thesis
    by (simp only: signed_take_bit_eq_iff_take_bit_eq)
qed

lemma sint_sum_list:
  "sint (sum_list (ns::int64 list)) = signed_take_bit 63 (\<Sum>n\<leftarrow>ns. sint n)"
proof (induction ns)
  case Nil
  show ?case by simp
next
  case (Cons n ns)
  have "sint (n + sum_list ns) = signed_take_bit 63 (sint n + sint (sum_list ns))"
    by (simp add: sint_word_ariths)
  also have "\<dots> = signed_take_bit 63 (sint n + (\<Sum>n\<leftarrow>ns. sint n))"
    unfolding Cons.IH by (rule signed_take_bit_add_right)
  finally show ?case by simp
qed

lemma series_sum_Ints:
  "series_sum (Ints ns) = Inr (Finite (real_of_int (signed_take_bit 63 (\<Sum>n\<leftarrow>ns. sint n))))"
  by (simp add: of_int64_def fold_plus_sum_list sint_sum_list)


text \<open>The summary of a table whose prices are numbers and whose volume is of integers.\<close>

lemma calculate_metrics_canonical:
  assumes "columns data ''Close'' = Some (Floats (map Finite cs))"
    and "columns data ''High'' = Some (Floats (map Finite hs))"
    and "columns data ''Low'' = Some (Floats (map Finite ls))"
    and "columns data ''Volume'' = Some (Ints vs)"
    and "cs \<noteq> []" and "hs \<noteq> []" and "ls \<noteq> []"
  shows "calculate_metrics data =
    Inr \<lparr>last_close = Finite (last cs), change = Finite (last cs - hd cs),
         pct_change = fmul (fdiv (Finite (last cs - hd cs)) (Finite (hd cs))) (Finite 100),
         high = Finite (Max (set hs)), low = Finite (Min (set ls)),
         volume = Finite (real_of_int (signed_take_bit 63 (\<Sum>v\<leftarrow>vs. sint v)))\<rparr>"
  using assms
  by (simp add: calculate_metrics_def getitem_def Let_def last_map hd_map
      series_max_Finite series_min_Finite series_sum_Ints
      del: fdiv_Finite fmul_Finite series_sum.simps series_max.simps series_min.simps)

lemma table_of_closes_column [simp]:
  "columns (table_of_closes cs) ''Close'' = Some (Floats (map Finite cs))"
  "columns (table_of_closes cs) ''High'' = Some (Floats (map Finite (map (\<lambda>c. c + 1) cs)))"
  "columns (table_of_closes cs) ''Low'' = Some (Floats (map Finite (map (\<lambda>c. c - 1) cs)))"
  "columns (table_of_closes cs) ''Volume'' = Some (Ints (map (\<lambda>c. 1000) cs))"
  "columns (table_of_closes cs) ''Open'' = Some (Floats (map Finite cs))"
  by (simp_all add: table_of_closes_def comp_def)

text \<open>
  C1, as the code has it. On a canonical table of at least one row (the columns Close, High
  and Low hold a number, and Volume an integer, in each of the same rows)
  \<open>calculate_metrics\<close> returns: as \<open>last_close\<close> the Close of the last row; as \<open>change\<close> that
  Close less the Close of the first row, which is the \<^verbatim>\<open>prev_close\<close> of the source; as
  \<open>pct_change\<close> the change over the first Close, times 100 (for a first Close that is not
  zero); as \<open>high\<close> the greatest High, as \<open>low\<close> the least Low; and as \<open>volume\<close> the sum of
  the Volume column as 64-bit integers add up, that is the sum wrapped into the range from
  \<open>- 2 ^ 63\<close> to \<open>2 ^ 63 - 1\<close>, which is the sum itself whenever the sum is in that range.
\<close>

theorem calculate_metrics_summary:
  assumes "columns data ''Close'' = Some (Floats (map Finite cs))"
    and "columns data ''High'' = Some (Floats (map Finite hs))"
    and "columns data ''Low'' = Some (Floats (map Finite ls))"
    and "columns data ''Volume'' = Some (Ints vs)"
    and "cs \<noteq> []" and "length hs = length cs" and "length ls = length cs"
    and "length vs = length cs"
  shows "\<exists>m. calculate_metrics data = Inr m
    \<and> last_close m = Finite (last cs)
    \<and> change m = Finite (last cs - hd cs)
    \<and> (hd cs \<noteq> 0 \<longrightarrow> pct_change m = Finite ((last cs - hd cs) / hd cs * 100))
    \<and> high m = Finite (Max (set hs))
    \<and> low m = Finite (Min (set ls))
    \<and> volume m = Finite (real_of_int (signed_take_bit 63 (\<Sum>v\<leftarrow>vs. sint v)))
    \<and> (- (2 ^ 63) \<le> (\<Sum>v\<leftarrow>vs. sint v) \<and> (\<Sum>v\<leftarrow>vs. sint v) < 2 ^ 63
         \<longrightarrow> volume m = Finite (real_of_int (\<Sum>v\<leftarrow>vs. sint v)))"
proof -
  from assms have "hs \<noteq> []" and "ls \<noteq> []" by auto
  with assms show ?thesis
    by (simp add: calculate_metrics_canonical signed_take_bit_int_eq_self)
qed

text \<open>The scenario of the spec: Close = [100, 102, 99, 105] gives the last close 105, the
  change 5 and 5.0 per cent.\<close>

theorem calculate_metrics_summary_witness:
  "\<exists>m. calculate_metrics (table_of_closes [100, 102, 99, 105]) = Inr m
     \<and> last_close m = Finite 105 \<and> change m = Finite 5 \<and> pct_change m = Finite 5
     \<and> high m = Finite 106 \<and> low m = Finite 98 \<and> volume m = Finite 4000"
  using calculate_metrics_summary [of "table_of_closes [100, 102, 99, 105]"
      "[100, 102, 99, 105]" "map (\<lambda>c. c + 1) [100, 102, 99, 105]"
      "map (\<lambda>c. c - 1) [100, 102, 99, 105]" "map (\<lambda>c. 1000) [100, 102, 99, 105]"]
  by (simp del: list.map) simp

text \<open>Two rows of the volume \<open>2 ^ 62\<close> each: the sum of the column is \<open>2 ^ 63\<close>, the volume
  returned is \<open>- 2 ^ 63\<close>.\<close>

theorem calculate_metrics_volume_counterexample:
  "map_sum id volume
     (calculate_metrics
        (setitem (table_of_closes [100, 105]) ''Volume''
           (Ints [4611686018427387904, 4611686018427387904])))
   = Inr (Finite (- 9223372036854775808))"
  by (simp add: calculate_metrics_def getitem_def setitem_def table_of_closes_def
      of_int64_def fmax_def fmin_def Let_def present_def)

text \<open>
  C3, as the code has it. On a table of no rows (every column it has is of length zero)
  \<open>calculate_metrics\<close> returns no metrics, of zeros or other: it fails with the exception of
  its first access, \<^verbatim>\<open>data['Close'].iloc[-1]\<close>, which is the built-in \<^verbatim>\<open>IndexError\<close> when the table
  has a Close column and the built-in \<^verbatim>\<open>KeyError\<close> when it has not. The code has no check for
  emptiness and no exception of its own for it.
\<close>

theorem calculate_metrics_empty:
  assumes "\<And>label c. columns data label = Some c \<Longrightarrow> column_len c = 0"
  shows "calculate_metrics data =
    Inl (if columns data ''Close'' = None then KeyError ''Close'' else IndexError)"
  using assms
  by (auto simp: calculate_metrics_def getitem_def split: option.splits)

theorem calculate_metrics_empty_witness:
  "calculate_metrics (table_of_closes []) = Inl IndexError"
proof -
  have zero_rows: "column_len c = 0" if "columns (table_of_closes []) label = Some c"
    for label c
    using that by (auto simp: table_of_closes_def split: if_splits)
  show ?thesis
    using calculate_metrics_empty [of "table_of_closes []", OF zero_rows] by simp
qed

text \<open>What an empty table raises is not a signal of emptiness: one empty table raises
  \<^verbatim>\<open>IndexError\<close>, another the \<^verbatim>\<open>KeyError\<close> that a table of one row without a Close column raises
  as well.\<close>

theorem calculate_metrics_empty_counterexample:
  "calculate_metrics (table_of_closes []) = Inl IndexError
   \<and> calculate_metrics no_columns = Inl (KeyError ''Close'')
   \<and> calculate_metrics open_only = Inl (KeyError ''Close'')"
  by (simp add: calculate_metrics_def getitem_def no_columns_def open_only_def)


lemma price_change_numbers:
  assumes "cs \<noteq> []" and "\<not> is_inf (hd cs)" and "hd cs \<noteq> NaN"
    and "\<not> is_inf (last cs)" and "last cs \<noteq> NaN"
  shows "price_change (Floats cs) =
    Inr (Finite (as_real (last cs)), Finite (as_real (last cs) - as_real (hd cs)),
         if as_real (hd cs) = 0
         then (if as_real (last cs) = 0 then NaN
               else infinity ((as_real (last cs) < 0) \<noteq> negative (hd cs)))
         else Finite (100 * (as_real (last cs) - as_real (hd cs)) / as_real (hd cs)))"
  using assms
  by (cases "last cs"; cases "hd cs")
     (auto simp: Let_def fsub_def fdiv_def fmul_def infinity_def)

text \<open>
  C6, as the code has it. On a canonical table of at least one row, whose Close cells are
  numbers (a zero of either sign among them), \<open>change\<close> is the last Close less the first
  and \<open>pct_change\<close> is 100 times the change over the first Close. When the first Close is
  zero nothing is raised: \<open>pct_change\<close> is NaN if the last Close is zero too, and otherwise
  it is an infinity. No other number returned is NaN, and neither is \<open>pct_change\<close> when the
  first Close is not zero.
\<close>

theorem calculate_metrics_pct_change:
  assumes "columns data ''Close'' = Some (Floats cs)"
    and "columns data ''High'' = Some (Floats (map Finite hs))"
    and "columns data ''Low'' = Some (Floats (map Finite ls))"
    and "columns data ''Volume'' = Some (Ints vs)"
    and "cs \<noteq> []" and "length hs = length cs" and "length ls = length cs"
    and "length vs = length cs"
    and "\<forall>c \<in> set cs. \<not> is_inf c \<and> c \<noteq> NaN"
  shows "\<exists>m. calculate_metrics data = Inr m
    \<and> change m = Finite (as_real (last cs) - as_real (hd cs))
    \<and> (as_real (hd cs) \<noteq> 0 \<longrightarrow>
          pct_change m = Finite (100 * (as_real (last cs) - as_real (hd cs)) / as_real (hd cs)))
    \<and> (as_real (hd cs) = 0 \<and> as_real (last cs) = 0 \<longrightarrow> pct_change m = NaN)
    \<and> (as_real (hd cs) = 0 \<and> as_real (last cs) \<noteq> 0 \<longrightarrow>
          pct_change m = PosInf \<or> pct_change m = NegInf)
    \<and> NaN \<notin> {last_close m, change m, high m, low m, volume m}"
proof -
  from assms have "hs \<noteq> []" and "ls \<noteq> []" by auto
  moreover from assms have "\<not> is_inf (hd cs)" "hd cs \<noteq> NaN"
    "\<not> is_inf (last cs)" "last cs \<noteq> NaN"
    by simp_all
  ultimately show ?thesis
    using assms(1-5)
    by (simp add: calculate_metrics_def getitem_def price_change_numbers
        series_max_Finite series_min_Finite series_sum_Ints infinity_def
        del: price_change.simps series_sum.simps series_max.simps series_min.simps)
qed

text \<open>A first Close of \<^verbatim>\<open>-0.0\<close> and a last Close of 5: the percentage is minus infinity.\<close>

theorem calculate_metrics_pct_change_witness:
  "\<exists>m. calculate_metrics (setitem (table_of_closes [0, 5]) ''Close'' (Floats [NegZero, Finite 5]))
         = Inr m
     \<and> change m = Finite 5 \<and> pct_change m = NegInf"
proof -
  let ?data = "setitem (table_of_closes [0, 5]) ''Close'' (Floats [NegZero, Finite 5])"
  have "\<exists>m. calculate_metrics ?data = Inr m
    \<and> change m = Finite (as_real (last [NegZero, Finite 5]) - as_real (hd [NegZero, Finite 5]))
    \<and> (as_real (hd [NegZero, Finite 5]) = 0 \<and> as_real (last [NegZero, Finite 5]) \<noteq> 0 \<longrightarrow>
          pct_change m = PosInf \<or> pct_change m = NegInf)"
    using calculate_metrics_pct_change [of ?data "[NegZero, Finite 5]"
        "map (\<lambda>c. c + 1) [0, 5]" "map (\<lambda>c. c - 1) [0, 5]" "map (\<lambda>c. 1000) [0, 5]"]
    by (simp add: setitem_def del: list.map) blast
  then obtain m where m: "calculate_metrics ?data = Inr m" and "change m = Finite 5"
    and "pct_change m = PosInf \<or> pct_change m = NegInf"
    by auto
  moreover have "map_sum id pct_change (calculate_metrics ?data) = Inr NegInf"
    by (simp add: calculate_metrics_def getitem_def setitem_def table_of_closes_def
        of_int64_def fmax_def fmin_def Let_def present_def fsub_def fdiv_def fmul_def
        infinity_def)
  ultimately show ?thesis by auto
qed

text \<open>A first Close of \<^verbatim>\<open>0.0\<close> and a last Close of 5: metrics are returned, and their
  \<open>pct_change\<close> is plus infinity, which is neither an exception nor NaN.\<close>

theorem calculate_metrics_zero_base_counterexample:
  "map_sum id pct_change (calculate_metrics (table_of_closes [0, 5])) = Inr PosInf"
  by (simp add: calculate_metrics_def getitem_def table_of_closes_def
      of_int64_def fmax_def fmin_def Let_def present_def)

section \<open>Properties of the normalisation\<close>

lemma process_data_RangeIndex: "index data = RangeIndex n \<Longrightarrow> process_data data = Inl AttributeError"
  by (simp add: process_data_def)

lemma process_data_DatetimeIndex:
  assumes "index data = DatetimeIndex name tz ts"
  shows "process_data data =
    and_then (reset_index (data\<lparr>index := DatetimeIndex name (Some ''US/Eastern'') ts\<rparr>))
      (\<lambda>data. Inr (rename ''Date'' ''Datetime'' data))"
  using assms by (cases tz) (simp_all add: process_data_def)

lemma index_rename [simp]: "index (rename old new data) = index data"
  by (simp add: rename_def split: option.splits)

lemma reset_index_index: "reset_index data = Inr data' \<Longrightarrow> index data' = RangeIndex (index_len (index data))"
  by (auto simp: reset_index_def Let_def split: if_splits)

lemma process_data_index:
  assumes "process_data data = Inr data'"
  shows "index data' = RangeIndex (index_len (index data))"
proof (cases "index data")
  case (RangeIndex n)
  with assms show ?thesis by (simp add: process_data_RangeIndex)
next
  case (DatetimeIndex name tz ts)
  from assms obtain d where d: "reset_index (data\<lparr>index := DatetimeIndex name (Some ''US/Eastern'') ts\<rparr>) = Inr d"
    and data': "data' = rename ''Date'' ''Datetime'' d"
    unfolding process_data_DatetimeIndex [OF DatetimeIndex]
    by (cases "reset_index (data\<lparr>index := DatetimeIndex name (Some ''US/Eastern'') ts\<rparr>)") auto
  from reset_index_index [OF d] data' DatetimeIndex show ?thesis by simp
qed

lemma reset_index_columns:
  "reset_index data = Inr data' \<Longrightarrow> columns data label = Some c \<Longrightarrow> columns data' label = Some c"
  by (auto simp: reset_index_def Let_def split: if_splits option.splits)

lemma rename_columns:
  "label \<noteq> old \<Longrightarrow> label \<noteq> new \<Longrightarrow> columns (rename old new data) label = columns data label"
  by (simp add: rename_def split: option.splits)

lemma process_data_columns:
  assumes "process_data data = Inr data'" and "columns data label = Some c"
    and "label \<noteq> ''Date''" and "label \<noteq> ''Datetime''"
  shows "columns data' label = Some c"
proof (cases "index data")
  case (RangeIndex n)
  with assms show ?thesis by (simp add: process_data_RangeIndex)
next
  case (DatetimeIndex name tz ts)
  let ?d = "data\<lparr>index := DatetimeIndex name (Some ''US/Eastern'') ts\<rparr>"
  from assms(1) obtain d where d: "reset_index ?d = Inr d"
    and data': "data' = rename ''Date'' ''Datetime'' d"
    unfolding process_data_DatetimeIndex [OF DatetimeIndex]
    by (cases "reset_index ?d") auto
  from assms(2) have "columns ?d label = Some c" by simp
  from reset_index_columns [OF d this] data' assms(3,4) show ?thesis
    by (simp add: rename_columns)
qed

lemma four_bars_flat:
  "flatten (four_bars t) = \<lparr>index = DatetimeIndex (Some ''Datetime'') (Some ''UTC'')
         [1700000000000000, 1700000060000000, 1700000120000000, 1700000180000000],
      columns = map_of
        [(''Close'', Floats [Finite 100, Finite 102, Finite 99, Finite 105]),
         (''High'', Floats [Finite 101, Finite 103, Finite 102, Finite 106]),
         (''Low'', Floats [Finite 98, Finite 100, Finite 97, Finite 99]),
         (''Open'', Floats [Finite 99, Finite 100, Finite 102, Finite 99]),
         (''Volume'', Ints [1000, 1500, 1200, 2000])]\<rparr>"
  by (simp add: flatten_def four_bars_def)

lemma process_four_bars: "\<exists>y. process_data (flatten (four_bars t)) = Inr y"
  by (simp add: four_bars_flat process_data_def reset_index_def)

lemma process_data_stamps:
  assumes "process_data data = Inr data'" and "index data = DatetimeIndex name tz ts"
    and "columns data ''Date'' = None"
  shows "columns data'
      (case name of
         Some l \<Rightarrow> if l = ''Date'' then ''Datetime'' else l
       | None \<Rightarrow> if columns data ''index'' = None then ''index'' else ''level_0'')
    = Some (Stamps (Some ''US/Eastern'') ts)"
  using assms
  unfolding process_data_DatetimeIndex [OF assms(2)]
  by (auto simp: reset_index_def rename_def Let_def split: option.splits if_splits)

text \<open>
  C4, as the code has it. \<open>process_data\<close> is not idempotent. Whenever it returns a table,
  the rows of that table are numbered (a \<^verbatim>\<open>RangeIndex\<close> in place of the index of timestamps),
  and \<open>process_data\<close> applied to that table, an already canonical one, does not yield the
  same table: it fails, with \<^verbatim>\<open>AttributeError\<close>, on \<^verbatim>\<open>data.index.tzinfo\<close>. What it returns the
  first time is the input with every column other than \<^verbatim>\<open>Date\<close> and \<^verbatim>\<open>Datetime\<close> as it was
  and, for an input without a \<^verbatim>\<open>Date\<close> column, the timestamps of the index, in US/Eastern
  time, as a column: under the name of the index, or under \<^verbatim>\<open>Datetime\<close> for an index named
  \<^verbatim>\<open>Date\<close>.
\<close>

theorem process_data_twice:
  assumes "process_data data = Inr data'"
  shows "index data' = RangeIndex (index_len (index data))
    \<and> process_data data' = Inl AttributeError
    \<and> (\<forall>label c. label \<noteq> ''Date'' \<and> label \<noteq> ''Datetime'' \<and> columns data label = Some c
          \<longrightarrow> columns data' label = Some c)
    \<and> (\<exists>name tz ts. index data = DatetimeIndex name tz ts
          \<and> (columns data ''Date'' = None \<longrightarrow>
               columns data'
                 (case name of
                    Some l \<Rightarrow> if l = ''Date'' then ''Datetime'' else l
                  | None \<Rightarrow> if columns data ''index'' = None then ''index'' else ''level_0'')
               = Some (Stamps (Some ''US/Eastern'') ts)))"
proof -
  obtain name tz ts where ix: "index data = DatetimeIndex name tz ts"
    using assms by (cases "index data") (simp_all add: process_data_RangeIndex)
  show ?thesis
    using process_data_index [OF assms] process_data_columns [OF assms]
      process_data_stamps [OF assms ix] ix
    by (simp add: process_data_RangeIndex)
qed

theorem process_data_twice_witness:
  "\<exists>y. process_data (flatten (four_bars ''ADBE'')) = Inr y \<and> index y = RangeIndex 4
     \<and> process_data y = Inl AttributeError
     \<and> columns y ''Close'' = Some (Floats [Finite 100, Finite 102, Finite 99, Finite 105])
     \<and> columns y ''Volume'' = Some (Ints [1000, 1500, 1200, 2000])
     \<and> columns y ''Datetime'' = Some (Stamps (Some ''US/Eastern'')
           [1700000000000000, 1700000060000000, 1700000120000000, 1700000180000000])"
proof -
  obtain y where y: "process_data (flatten (four_bars ''ADBE'')) = Inr y"
    using process_four_bars by blast
  from process_data_twice [OF y] y show ?thesis
    by (simp add: four_bars_flat)
qed

text \<open>Four bars as downloaded: normalising them once returns a table, normalising that
  table again does not return it.\<close>

theorem process_data_idempotent_counterexample:
  "and_then (process_data (flatten (four_bars ''ADBE''))) process_data
     \<noteq> process_data (flatten (four_bars ''ADBE''))"
  by (simp add: four_bars_flat process_data_def reset_index_def rename_def)

section \<open>Properties of the download and of the page\<close>

text \<open>
  C7. \<open>fetch_stock_data\<close> makes one call of the provider. For the period \<^verbatim>\<open>1wk\<close> the call
  names the window of the seven days that end now and no period; for every other period it
  names that period and no window. The interval of the call is the one passed, and the page
  takes it from the table \<^verbatim>\<open>1d\<close> to \<^verbatim>\<open>1m\<close>, \<^verbatim>\<open>1wk\<close> to \<^verbatim>\<open>30m\<close>, \<^verbatim>\<open>1mo\<close> to \<^verbatim>\<open>1d\<close>, \<^verbatim>\<open>1y\<close> to
  \<^verbatim>\<open>1wk\<close>, \<^verbatim>\<open>max\<close> to \<^verbatim>\<open>1wk\<close>.
\<close>

theorem fetch_stock_data_request:
  "fetch_stock_data yf now ticker period interval =
     and_then (yf (download_request now ticker period interval)) (\<lambda>data. Inr (flatten data))
   \<and> (period = ''1wk'' \<longrightarrow> download_request now ticker period interval =
        \<lparr>dl_ticker = ticker, dl_start = Some (now - timedelta_days 7), dl_end = Some now,
         dl_period = None, dl_interval = interval, dl_auto_adjust = False\<rparr>)
   \<and> (period \<noteq> ''1wk'' \<longrightarrow> download_request now ticker period interval =
        \<lparr>dl_ticker = ticker, dl_start = None, dl_end = None,
         dl_period = Some period, dl_interval = interval, dl_auto_adjust = False\<rparr>)
   \<and> map interval_mapping [''1d'', ''1wk'', ''1mo'', ''1y'', ''max'']
        = [Some ''1m'', Some ''30m'', Some ''1d'', Some ''1wk'', Some ''1wk'']
   \<and> (\<forall>p \<in> set [''1d'', ''1wk'', ''1mo'', ''1y'', ''max''].
        \<exists>i. interval_mapping p = Some i
          \<and> update_fetch yf now ticker p = fetch_stock_data yf now ticker p i)"
  by (simp add: fetch_stock_data_def download_request_def interval_mapping_def update_fetch_def)

theorem fetch_stock_data_request_witness:
  "download_request 1700000000000000 ''ADBE'' ''1wk'' ''30m'' =
     \<lparr>dl_ticker = ''ADBE'', dl_start = Some 1699395200000000, dl_end = Some 1700000000000000,
      dl_period = None, dl_interval = ''30m'', dl_auto_adjust = False\<rparr>
   \<and> download_request 1700000000000000 ''ADBE'' ''1y'' ''1wk'' =
     \<lparr>dl_ticker = ''ADBE'', dl_start = None, dl_end = None,
      dl_period = Some ''1y'', dl_interval = ''1wk'', dl_auto_adjust = False\<rparr>
   \<and> update_fetch (provider_with ''GOOGL'' (Inr close_only)) 1700000000000000 ''ADBE'' ''1wk''
       = Inr (flatten (four_bars ''ADBE''))"
  using fetch_stock_data_request [of "provider_with ''GOOGL'' (Inr close_only)" 1700000000000000 "''ADBE''" "''1wk''" "''30m''"]
    fetch_stock_data_request [of "provider_with ''GOOGL'' (Inr close_only)" 1700000000000000 "''ADBE''" "''1y''" "''1wk''"]
  by (simp add: timedelta_days_def provider_with_def)

text \<open>
  C8, as the code has it. The title of the chart is the ticker as typed, a space, the
  period in upper case, a space and the word Chart: the five periods appear as \<^verbatim>\<open>1D\<close>,
  \<^verbatim>\<open>1WK\<close>, \<^verbatim>\<open>1MO\<close>, \<^verbatim>\<open>1Y\<close> and \<^verbatim>\<open>MAX\<close>.
\<close>

theorem update_layout_title:
  "title (update_layout ticker time_period) = ticker @ '' '' @ upper time_period @ '' Chart''
   \<and> map upper [''1d'', ''1wk'', ''1mo'', ''1y'', ''max'']
        = [''1D'', ''1WK'', ''1MO'', ''1Y'', ''MAX'']"
  by (simp add: update_layout_def upper_def upper_char_def)

theorem update_layout_title_witness:
  "title (update_layout ''ADBE'' ''1wk'') = ''ADBE 1WK Chart''"
  using update_layout_title [of "''ADBE''" "''1wk''"]
  by (simp add: upper_def upper_char_def)

text \<open>The period \<^verbatim>\<open>1d\<close> is not in the title as it was selected.\<close>

theorem update_layout_title_counterexample:
  "title (update_layout ''ADBE'' ''1d'') \<noteq> ''ADBE'' @ '' '' @ ''1d'' @ '' Chart''"
  by (simp add: update_layout_def upper_def upper_char_def)

section \<open>Properties of the watchlist\<close>

lemma watchlist_quote_numbers:
  assumes "columns data ''Close'' = Some (Floats (map Finite cs))"
    and "columns data ''Open'' = Some (Floats (map Finite os))"
    and "cs \<noteq> []" and "os \<noteq> []"
  shows "watchlist_quote data =
    (if hd os = 0 then Inl ZeroDivisionError
     else Inr (Finite (last cs), Finite (last cs - hd os),
               Finite (100 * (last cs - hd os) / hd os)))"
  using assms
  by (simp add: watchlist_quote_def getitem_def py_truediv_def last_map hd_map)

lemma fetch_provider_with:
  "fetch_stock_data (provider_with t answer) now symbol period interval =
     (if symbol = t then and_then answer (\<lambda>d. Inr (flatten d)) else Inr (flatten (four_bars symbol)))"
  by (simp add: fetch_stock_data_def provider_with_def download_request_def)

lemma four_bars_not_empty: "\<not> frame_empty (flatten (four_bars t))"
  by (simp add: four_bars_flat frame_empty_def)

text \<open>
  C9. In a round of the watchlist loop whose download is not empty and has a number in
  every Close and Open cell, the change shown is the Close of the last row less the Open of
  the first row, and the percentage is 100 times that change over the Open of the first
  row. (When that Open is zero the division raises and the round shows the error instead.)
\<close>

theorem watchlist_round_quote:
  assumes "fetch_stock_data yf now symbol ''1d'' ''1m'' = Inr raw"
    and "\<not> frame_empty raw"
    and "process_data raw = Inr data"
    and "columns raw ''Close'' = Some (Floats (map Finite cs))"
    and "columns raw ''Open'' = Some (Floats (map Finite os))"
    and "cs \<noteq> []" and "os \<noteq> []"
  shows "watchlist_round yf now symbol =
    Inr [if hd os = 0 then Write symbol ZeroDivisionError
         else Metric symbol (Finite (last cs)) (Finite (last cs - hd os))
                (Finite (100 * (last cs - hd os) / hd os))]"
proof -
  have "columns data ''Close'' = Some (Floats (map Finite cs))"
    and "columns data ''Open'' = Some (Floats (map Finite os))"
    using process_data_columns [OF assms(3)] assms(4,5) by simp_all
  from watchlist_quote_numbers [OF this assms(6,7)] assms(1,2,3) show ?thesis
    by (simp add: watchlist_round_def)
qed

theorem watchlist_round_quote_witness:
  "watchlist_round (provider_with ''GOOGL'' (Inr close_only)) 1700000000000000 ''AAPL''
     = Inr [Metric ''AAPL'' (Finite 105) (Finite 6) (Finite (200 / 33))]"
proof -
  obtain y where y: "process_data (flatten (four_bars ''AAPL'')) = Inr y"
    using process_four_bars by blast
  have f: "fetch_stock_data (provider_with ''GOOGL'' (Inr close_only)) 1700000000000000 ''AAPL'' ''1d'' ''1m''
     = Inr (flatten (four_bars ''AAPL''))"
    by (simp add: fetch_provider_with)
  show ?thesis
    using watchlist_round_quote [OF f four_bars_not_empty y, of "[100, 102, 99, 105]" "[99, 100, 102, 99]"]
    by (simp add: four_bars_flat)
qed

lemma watchlist_all_rounds:
  assumes "\<And>s. s \<in> set symbols \<Longrightarrow> watchlist_round yf now s = Inr (f s)"
  shows "watchlist yf now symbols shown = (shown @ concat (map f symbols), None)"
  using assms by (induction symbols arbitrary: shown) simp_all

lemma process_four_bars_eq:
  "process_data (flatten (four_bars t)) = Inr (projr (process_data (flatten (four_bars t))))"
  using process_four_bars [of t] by auto

lemma close_only_flat:
  "flatten close_only = \<lparr>index = DatetimeIndex (Some ''Datetime'') (Some ''UTC'') [1700000000000000],
      columns = map_of [(''Close'', Floats [Finite 100])]\<rparr>"
  by (simp add: flatten_def close_only_def)

lemma quote_four_bars:
  "watchlist_quote (projr (process_data (flatten (four_bars t))))
     = Inr (Finite 105, Finite 6, Finite (200 / 33))"
proof -
  obtain y where y: "process_data (flatten (four_bars t)) = Inr y"
    using process_four_bars by blast
  have "columns y ''Close'' = Some (Floats (map Finite [100, 102, 99, 105]))"
    and "columns y ''Open'' = Some (Floats (map Finite [99, 100, 102, 99]))"
    using process_data_columns [OF y] by (simp_all add: four_bars_flat)
  from watchlist_quote_numbers [OF this] y show ?thesis by simp
qed

lemma process_close_only:
  "process_data (flatten close_only) =
     Inr \<lparr>index = RangeIndex 1,
          columns = [''Close'' \<mapsto> Floats [Finite 100],
                     ''Datetime'' \<mapsto> Stamps (Some ''US/Eastern'') [1700000000000000]]\<rparr>"
  by (simp add: close_only_flat process_data_def reset_index_def rename_def)

lemma quote_close_only:
  "watchlist_quote (projr (process_data (flatten close_only))) = Inl (KeyError ''Open'')"
  by (simp add: process_close_only watchlist_quote_def getitem_def)

lemma round_four_bars:
  assumes "symbol \<noteq> t"
  shows "watchlist_round (provider_with t answer) now symbol
    = Inr [Metric symbol (Finite 105) (Finite 6) (Finite (200 / 33))]"
proof -
  obtain y where y: "process_data (flatten (four_bars symbol)) = Inr y"
    using process_four_bars by blast
  with quote_four_bars [of symbol] assms show ?thesis
    by (simp add: watchlist_round_def fetch_provider_with four_bars_not_empty)
qed

text \<open>
  C5, as the code has it. When the download of every symbol returns, and the normalisation
  of every download that is not empty returns, the loop runs through all the symbols and
  the sidebar gets, in their order: nothing for a symbol whose download is empty; the
  message of the error for a symbol whose quote fails inside the \<^verbatim>\<open>try\<close>; the quote for every
  other symbol.
\<close>

theorem watchlist_isolation:
  assumes "\<And>s. s \<in> set symbols \<Longrightarrow> fetch_stock_data yf now s ''1d'' ''1m'' = Inr (raw s)"
    and "\<And>s. s \<in> set symbols \<Longrightarrow> \<not> frame_empty (raw s) \<Longrightarrow> process_data (raw s) = Inr (data s)"
  shows "watchlist yf now symbols shown =
    (shown @ concat (map (\<lambda>s. if frame_empty (raw s) then []
                              else (case watchlist_quote (data s) of
                                      Inr (last_price, delta, pct) \<Rightarrow> [Metric s last_price delta pct]
                                    | Inl e \<Rightarrow> [Write s e])) symbols),
     None)"
proof (rule watchlist_all_rounds)
  fix s assume s: "s \<in> set symbols"
  show "watchlist_round yf now s =
    Inr (if frame_empty (raw s) then []
         else (case watchlist_quote (data s) of
                 Inr (last_price, delta, pct) \<Rightarrow> [Metric s last_price delta pct]
               | Inl e \<Rightarrow> [Write s e]))"
    using assms(1) [OF s] assms(2) [OF s]
    by (auto simp: watchlist_round_def split: sum.splits)
qed

theorem watchlist_isolation_witness:
  "watchlist (provider_with ''GOOGL'' (Inr close_only)) 1700000000000000 stock_symbols [] =
     ([Metric ''AAPL'' (Finite 105) (Finite 6) (Finite (200 / 33)),
       Write ''GOOGL'' (KeyError ''Open''),
       Metric ''AMZN'' (Finite 105) (Finite 6) (Finite (200 / 33)),
       Metric ''MSFT'' (Finite 105) (Finite 6) (Finite (200 / 33))], None)"
proof -
  let ?raw = "\<lambda>s. if s = ''GOOGL'' then flatten close_only else flatten (four_bars s)"
  let ?data = "\<lambda>s. projr (process_data (?raw s))"
  have fetched: "fetch_stock_data (provider_with ''GOOGL'' (Inr close_only)) 1700000000000000 s ''1d'' ''1m''
      = Inr (?raw s)" for s
    by (simp add: fetch_provider_with)
  have processed: "process_data (?raw s) = Inr (?data s)" for s
    using process_four_bars_eq [of s] by (simp add: process_close_only)
  have not_empty: "\<not> frame_empty (?raw s)" for s
    by (simp add: four_bars_not_empty) (simp add: close_only_flat frame_empty_def)
  show ?thesis
    using watchlist_isolation [of stock_symbols "provider_with ''GOOGL'' (Inr close_only)"
        1700000000000000 ?raw ?data "[]", OF fetched processed]
    by (simp add: stock_symbols_def not_empty quote_four_bars quote_close_only)
qed

text \<open>A download that raises for the second symbol ends the loop: the sidebar has the quote
  of the first symbol only, no message for the second, and nothing for the last two. A
  download of no rows for the second symbol leaves the other three quotes, and no message
  for the second.\<close>

theorem watchlist_download_error_counterexample:
  "watchlist (provider_with ''GOOGL'' (Inl (DownloadError ''GOOGL''))) 1700000000000000
     stock_symbols [] =
     ([Metric ''AAPL'' (Finite 105) (Finite 6) (Finite (200 / 33))],
      Some (DownloadError ''GOOGL''))
   \<and> watchlist (provider_with ''GOOGL'' (Inr no_bars)) 1700000000000000 stock_symbols [] =
     ([Metric ''AAPL'' (Finite 105) (Finite 6) (Finite (200 / 33)),
       Metric ''AMZN'' (Finite 105) (Finite 6) (Finite (200 / 33)),
       Metric ''MSFT'' (Finite 105) (Finite 6) (Finite (200 / 33))], None)"
proof -
  have "watchlist_round (provider_with ''GOOGL'' (Inl (DownloadError ''GOOGL'')))
      1700000000000000 ''GOOGL'' = Inl (DownloadError ''GOOGL'')"
    by (simp add: watchlist_round_def fetch_provider_with)
  moreover have "watchlist_round (provider_with ''GOOGL'' (Inr no_bars))
      1700000000000000 ''GOOGL'' = Inr []"
    by (simp add: watchlist_round_def fetch_provider_with frame_empty_def flatten_def
        no_bars_def)
  ultimately show ?thesis
    by (simp add: stock_symbols_def round_four_bars)
qed

section \<open>Properties of the moving averages\<close>

lemma length_rolling_mean [simp]: "length (rolling_mean w win xs) = length xs"
  by (induction xs arbitrary: win) (simp_all add: Let_def)

lemma length_ema_pass [simp]: "length (ema_pass \<alpha> w seen average xs) = length xs"
  by (induction \<alpha> w seen average xs rule: ema_pass.induct) (simp_all add: Let_def)

lemma drop_window_append:
  "drop (length (drop (length a - w) a @ t) - w) (drop (length a - w) a @ t)
     = drop (length (a @ t) - w) (a @ t)"
  by (cases "length a \<le> w") (auto simp: drop_append algebra_simps)

lemma window_step:
  assumes "0 < w" and "length win \<le> w"
  shows "(if length win < w then win else tl win) @ [x]
     = drop (length (win @ [x]) - w) (win @ [x])"
  using assms by (cases win) (auto simp: drop_Cons')

lemma rolling_mean_nth:
  assumes "0 < w" and "length win \<le> w" and "i < length xs"
  shows "rolling_mean w win xs ! i
     = window_mean w (drop (length (win @ take (Suc i) xs) - w) (win @ take (Suc i) xs))"
  using assms(2,3)
proof (induction xs arbitrary: win i)
  case Nil
  then show ?case by simp
next
  case (Cons x xs)
  let ?win' = "(if length win < w then win else tl win) @ [x]"
  have win': "?win' = drop (length (win @ [x]) - w) (win @ [x])"
    using window_step [OF assms(1) Cons.prems(1)] .
  have len: "length ?win' \<le> w"
    using Cons.prems(1) assms(1) by auto
  show ?case
  proof (cases i)
    case 0
    then show ?thesis using win' by (simp add: Let_def)
  next
    case (Suc j)
    with Cons.prems have j: "j < length xs" by simp
    have "rolling_mean w win (x # xs) ! i = rolling_mean w ?win' xs ! j"
      using Suc by (simp add: Let_def)
    also have "\<dots> = window_mean w (drop (length (?win' @ take (Suc j) xs) - w) (?win' @ take (Suc j) xs))"
      using Cons.IH [OF len j] .
    also have "drop (length (?win' @ take (Suc j) xs) - w) (?win' @ take (Suc j) xs)
        = drop (length ((win @ [x]) @ take (Suc j) xs) - w) ((win @ [x]) @ take (Suc j) xs)"
      unfolding win' by (rule drop_window_append)
    finally show ?thesis using Suc by simp
  qed
qed

lemma known_map_Some: "[x. Some x \<leftarrow> map Some l] = l"
  by (induction l) simp_all

lemma window_mean_Some:
  "window_mean w (map Some l) = (if w \<le> length l then Some (sum_list l / real (length l)) else None)"
  by (simp only: window_mean_def Let_def known_map_Some)

lemma sma_indicator_nth:
  assumes "0 < w" and "i < length xs"
  shows "sma_indicator w (map Some xs) ! i
     = (if Suc i < w then None else Some (sum_list (take w (drop (Suc i - w) xs)) / real w))"
proof -
  have "sma_indicator w (map Some xs) ! i
      = window_mean w (drop (length (take (Suc i) (map Some xs)) - w) (take (Suc i) (map Some xs)))"
    using rolling_mean_nth [OF assms(1), of "[]" i "map Some xs"] assms(2)
    by (simp add: sma_indicator_def)
  also have "drop (length (take (Suc i) (map Some xs)) - w) (take (Suc i) (map Some xs))
      = map Some (drop (Suc i - w) (take (Suc i) xs))"
    using assms(2) by (simp add: take_map drop_map min_absorb2 Suc_leI)
  also have "window_mean w \<dots> = (if Suc i < w then None else Some (sum_list (drop (Suc i - w) (take (Suc i) xs)) / real w))"
    using assms by (auto simp: window_mean_Some min_absorb2 Suc_leI)
  finally have *: "sma_indicator w (map Some xs) ! i
      = (if Suc i < w then None else Some (sum_list (drop (Suc i - w) (take (Suc i) xs)) / real w))" .
  have "drop (Suc i - w) (take (Suc i) xs) = take w (drop (Suc i - w) xs)" if "\<not> Suc i < w"
    using that by (simp add: drop_take)
  with * show ?thesis by auto
qed

lemma ema_pass_seeded:
  assumes "i < length xs"
  shows "ema_pass \<alpha> w seen (Some e) (map Some xs) ! i
     = Some (fold (\<lambda>x e. \<alpha> * x + (1 - \<alpha>) * e) (take (Suc i) xs) e)"
  using assms
proof (induction xs arbitrary: e i)
  case Nil
  then show ?case by simp
next
  case (Cons x xs)
  show ?case
  proof (cases i)
    case 0
    then show ?thesis by (simp add: Let_def)
  next
    case (Suc j)
    with Cons.prems have j: "j < length xs" by simp
    show ?thesis
      using Suc Cons.IH [OF j, of "\<alpha> * x + (1 - \<alpha>) * e"]
      by (simp add: Let_def)
  qed
qed

lemma ema_pass_unseeded:
  assumes "length seen < w" and "i < length xs"
  shows "ema_pass \<alpha> w seen None (map Some xs) ! i
     = (if length seen + Suc i < w then None
        else Some (fold (\<lambda>x e. \<alpha> * x + (1 - \<alpha>) * e)
                     (take (length seen + Suc i - w) (drop (w - length seen) xs))
                     (sum_list (seen @ take (w - length seen) xs) / real w)))"
  using assms
proof (induction xs arbitrary: seen i)
  case Nil
  then show ?case by simp
next
  case (Cons x xs)
  show ?case
  proof (cases "w \<le> length (seen @ [x])")
    case True
    with Cons.prems(1) have w: "w = Suc (length seen)" by simp
    show ?thesis
    proof (cases i)
      case 0
      then show ?thesis using w by (simp add: Let_def)
    next
      case (Suc j)
      with Cons.prems have j: "j < length xs" by simp
      show ?thesis
        using Suc w ema_pass_seeded [OF j, of \<alpha> w "seen @ [x]" "sum_list (seen @ [x]) / real w"]
        by (simp add: Let_def)
    qed
  next
    case False
    then have short: "length (seen @ [x]) < w" by simp
    show ?thesis
    proof (cases i)
      case 0
      then show ?thesis using short by (simp add: Let_def)
    next
      case (Suc j)
      with Cons.prems have j: "j < length xs" by simp
      have d: "w - length seen = Suc (w - Suc (length seen))"
        using short by simp
      show ?thesis
        using Suc short Cons.IH [OF short j]
        by (simp add: Let_def d)
    qed
  qed
qed

lemma ema_indicator_nth:
  assumes "0 < w" and "i < length xs"
  shows "ema_indicator w (map Some xs) ! i
     = (if Suc i < w then None
        else Some (fold (\<lambda>x e. 2 / (real w + 1) * x + (1 - 2 / (real w + 1)) * e)
                     (take (Suc i - w) (drop w xs)) (sum_list (take w xs) / real w)))"
  using ema_pass_unseeded [of "[]" w i xs "2 / (real w + 1)"] assms
  by (simp add: ema_indicator_def)

lemma closes_Floats_Finite: "closes (Floats (map Finite xs)) = Inr (map Some xs)"
  by (simp add: comp_def)

lemma add_technical_indicators_Finite:
  assumes "columns data ''Close'' = Some (Floats (map Finite xs))"
  shows "add_technical_indicators data =
    Inr (setitem
           (setitem data ''SMA_20'' (Floats (map indicator_cell (sma_indicator 20 (map Some xs)))))
           ''EMA_20'' (Floats (map indicator_cell (ema_indicator 20 (map Some xs)))))"
  using assms
  by (simp add: add_technical_indicators_def getitem_def closes_Floats_Finite del: closes.simps)

lemma length_closes: "closes c = Inr close \<Longrightarrow> length close = column_len c"
  by (cases c) auto

lemma add_technical_indicators_Inr:
  assumes "add_technical_indicators data = Inr data'"
  obtains c close where "columns data ''Close'' = Some c" and "closes c = Inr close"
    and "data' = setitem
           (setitem data ''SMA_20'' (Floats (map indicator_cell (sma_indicator 20 close))))
           ''EMA_20'' (Floats (map indicator_cell (ema_indicator 20 close)))"
proof -
  from assms obtain c where c: "columns data ''Close'' = Some c"
    by (cases "columns data ''Close''") (simp_all add: add_technical_indicators_def getitem_def)
  with assms obtain close where "closes c = Inr close"
    by (cases "closes c") (simp_all add: add_technical_indicators_def getitem_def)
  with assms c that show ?thesis
    by (simp add: add_technical_indicators_def getitem_def)
qed

text \<open>
  C10. Whenever \<open>add_technical_indicators\<close> returns a table, the index, and with it the
  number of rows, is that of the input; every column but \<^verbatim>\<open>SMA_20\<close> and \<^verbatim>\<open>EMA_20\<close> is as it was
  (Datetime, Open, High, Low, Close and Volume among them); the labels are those of the
  input and these two; and the two columns have one cell for each cell of Close. (When it
  raises, for want of a numeric Close column, nothing has been assigned.)
\<close>

theorem add_technical_indicators_frame:
  assumes "add_technical_indicators data = Inr data'"
  shows "index data' = index data
    \<and> (\<forall>label. label \<noteq> ''SMA_20'' \<and> label \<noteq> ''EMA_20''
          \<longrightarrow> columns data' label = columns data label)
    \<and> dom (columns data') = dom (columns data) \<union> {''SMA_20'', ''EMA_20''}
    \<and> (\<exists>close sma ema. columns data ''Close'' = Some close
          \<and> columns data' ''SMA_20'' = Some (Floats sma) \<and> length sma = column_len close
          \<and> columns data' ''EMA_20'' = Some (Floats ema) \<and> length ema = column_len close)"
proof -
  from assms obtain c close where "columns data ''Close'' = Some c" and "closes c = Inr close"
    and "data' = setitem
           (setitem data ''SMA_20'' (Floats (map indicator_cell (sma_indicator 20 close))))
           ''EMA_20'' (Floats (map indicator_cell (ema_indicator 20 close)))"
    by (rule add_technical_indicators_Inr)
  then show ?thesis
    using length_closes [of c close]
    by (auto simp: setitem_def sma_indicator_def ema_indicator_def)
qed

theorem add_technical_indicators_frame_witness:
  "\<exists>data'. add_technical_indicators (table_of_closes [100, 102, 99, 105]) = Inr data'
     \<and> index data' = RangeIndex 4
     \<and> columns data' ''Open'' = Some (Floats [Finite 100, Finite 102, Finite 99, Finite 105])
     \<and> columns data' ''Volume'' = Some (Ints [1000, 1000, 1000, 1000])
     \<and> dom (columns data')
         = {''Datetime'', ''Open'', ''High'', ''Low'', ''Close'', ''Volume'', ''SMA_20'', ''EMA_20''}"
proof -
  obtain data' where d: "add_technical_indicators (table_of_closes [100, 102, 99, 105]) = Inr data'"
    using add_technical_indicators_Finite [OF table_of_closes_column(1)] by blast
  have "dom (columns (table_of_closes [100, 102, 99, 105]))
      = {''Datetime'', ''Open'', ''High'', ''Low'', ''Close'', ''Volume''}"
    by (auto simp: table_of_closes_def)
  moreover have "index (table_of_closes [100, 102, 99, 105]) = RangeIndex 4"
    by (simp add: table_of_closes_def)
  ultimately show ?thesis
    using add_technical_indicators_frame [OF d] d by auto
qed

text \<open>
  C2. On a table of at least 20 rows with a number in every Close cell, the columns
  \<^verbatim>\<open>SMA_20\<close> and \<^verbatim>\<open>EMA_20\<close> are undefined (NaN) in the rows 1 to 19, the indices below 19, and
  defined from row 20 on. There \<^verbatim>\<open>SMA_20\<close> is the arithmetic mean of the 20 Close values
  that end in the row, and \<^verbatim>\<open>EMA_20\<close> is the value \<open>e\<close> of the exponential moving average
  with the smoothing factor \<open>2 / (20 + 1)\<close>, seeded from the first window of 20 bars: in row
  20 it is the mean of the first 20 Close values, and in every later row it is \<open>2 / 21\<close> of
  the Close of the row and \<open>19 / 21\<close> of \<open>e\<close> of the row before.
\<close>

theorem add_technical_indicators_values:
  assumes "columns data ''Close'' = Some (Floats (map Finite xs))" and "20 \<le> length xs"
  shows "\<exists>data' sma ema e.
      add_technical_indicators data = Inr data'
    \<and> columns data' ''SMA_20'' = Some (Floats sma) \<and> length sma = length xs
    \<and> columns data' ''EMA_20'' = Some (Floats ema) \<and> length ema = length xs
    \<and> (\<forall>i<19. sma ! i = NaN \<and> ema ! i = NaN)
    \<and> (\<forall>i. 19 \<le> i \<and> i < length xs \<longrightarrow>
          sma ! i = Finite (sum_list (take 20 (drop (i - 19) xs)) / 20) \<and> ema ! i = Finite (e i))
    \<and> e 19 = sum_list (take 20 xs) / 20
    \<and> (\<forall>i. 19 \<le> i \<and> Suc i < length xs \<longrightarrow>
          e (Suc i) = 2 / 21 * xs ! Suc i + (1 - 2 / 21) * e i)"
proof -
  define step where "step = (\<lambda>x e::real. 2 / (real 20 + 1) * x + (1 - 2 / (real 20 + 1)) * e)"
  define e where "e = (\<lambda>i. fold step (take (i - 19) (drop 20 xs)) (sum_list (take 20 xs) / real 20))"
  let ?sma = "map indicator_cell (sma_indicator 20 (map Some xs))"
  let ?ema = "map indicator_cell (ema_indicator 20 (map Some xs))"
  let ?data' = "setitem (setitem data ''SMA_20'' (Floats ?sma)) ''EMA_20'' (Floats ?ema)"
  have run: "add_technical_indicators data = Inr ?data'"
    using assms(1) by (rule add_technical_indicators_Finite)
  have cols: "columns ?data' ''SMA_20'' = Some (Floats ?sma)"
    "columns ?data' ''EMA_20'' = Some (Floats ?ema)"
    by (simp_all add: setitem_def)
  have len: "length ?sma = length xs" "length ?ema = length xs"
    by (simp_all add: sma_indicator_def ema_indicator_def)
  have early: "?sma ! i = NaN \<and> ?ema ! i = NaN" if "i < 19" for i
  proof -
    have "sma_indicator 20 (map Some xs) ! i = None"
      using that assms(2) by (simp add: sma_indicator_nth)
    moreover have "ema_indicator 20 (map Some xs) ! i = None"
      using that assms(2) by (simp add: ema_indicator_nth)
    moreover have "i < length (sma_indicator 20 (map Some xs))"
      "i < length (ema_indicator 20 (map Some xs))"
      using that assms(2) by (simp_all add: sma_indicator_def ema_indicator_def)
    ultimately show ?thesis by simp
  qed
  have late: "?sma ! i = Finite (sum_list (take 20 (drop (i - 19) xs)) / 20) \<and> ?ema ! i = Finite (e i)"
    if "19 \<le> i" and "i < length xs" for i
  proof -
    have "sma_indicator 20 (map Some xs) ! i = Some (sum_list (take 20 (drop (i - 19) xs)) / 20)"
      using that by (simp add: sma_indicator_nth)
    moreover have "ema_indicator 20 (map Some xs) ! i = Some (e i)"
      using that by (simp add: ema_indicator_nth e_def step_def)
    moreover have "i < length (sma_indicator 20 (map Some xs))"
      "i < length (ema_indicator 20 (map Some xs))"
      using that by (simp_all add: sma_indicator_def ema_indicator_def)
    ultimately show ?thesis by simp
  qed
  have e19: "e 19 = sum_list (take 20 xs) / 20"
    by (simp add: e_def)
  have rec: "e (Suc i) = 2 / 21 * xs ! Suc i + (1 - 2 / 21) * e i"
    if "19 \<le> i" and "Suc i < length xs" for i
  proof -
    from that have k: "i - 19 < length (drop 20 xs)" by simp
    have "Suc i - 19 = Suc (i - 19)" using that by simp
    then have "e (Suc i) = step (drop 20 xs ! (i - 19)) (e i)"
      by (simp add: e_def take_Suc_conv_app_nth [OF k])
    also have "drop 20 xs ! (i - 19) = xs ! Suc i"
      using that by simp
    finally show ?thesis by (simp add: step_def)
  qed
  from run cols len early late e19 rec show ?thesis by blast
qed


theorem add_technical_indicators_values_witness:
  "\<exists>data' sma ema.
      add_technical_indicators
        (table_of_closes
           [1, 2, 3, 4, 5, 6, 7, 8, 9, 10, 11, 12, 13, 14, 15, 16, 17, 18, 19, 20, 42])
        = Inr data'
    \<and> columns data' ''SMA_20'' = Some (Floats sma)
    \<and> columns data' ''EMA_20'' = Some (Floats ema)
    \<and> sma ! 18 = NaN \<and> sma ! 19 = Finite (21 / 2) \<and> sma ! 20 = Finite (251 / 20)
    \<and> ema ! 18 = NaN \<and> ema ! 19 = Finite (21 / 2) \<and> ema ! 20 = Finite (27 / 2)"
proof -
  let ?xs = "[1, 2, 3, 4, 5, 6, 7, 8, 9, 10, 11, 12, 13, 14, 15, 16, 17, 18, 19, 20, 42] :: real list"
  have "20 \<le> length ?xs" by simp
  from add_technical_indicators_values [OF table_of_closes_column(1) this]
  obtain data' sma ema e where
    run: "add_technical_indicators (table_of_closes ?xs) = Inr data'"
    and cols: "columns data' ''SMA_20'' = Some (Floats sma)"
      "columns data' ''EMA_20'' = Some (Floats ema)"
    and early: "\<forall>i<19. sma ! i = NaN \<and> ema ! i = NaN"
    and late: "\<forall>i. 19 \<le> i \<and> i < length ?xs \<longrightarrow>
          sma ! i = Finite (sum_list (take 20 (drop (i - 19) ?xs)) / 20) \<and> ema ! i = Finite (e i)"
    and seed: "e 19 = sum_list (take 20 ?xs) / 20"
    and rec: "\<forall>i. 19 \<le> i \<and> Suc i < length ?xs \<longrightarrow>
          e (Suc i) = 2 / 21 * ?xs ! Suc i + (1 - 2 / 21) * e i"
    by blast
  have e19: "e 19 = 21 / 2" using seed by simp
  have e20: "e 20 = 27 / 2"
    using rec [rule_format, of 19] by (simp add: e19)
  have s18: "sma ! 18 = NaN" and m18: "ema ! 18 = NaN"
    using early by simp_all
  have s19: "sma ! 19 = Finite (21 / 2)" and m19: "ema ! 19 = Finite (21 / 2)"
    using late [rule_format, of 19] e19 by simp_all
  have s20: "sma ! 20 = Finite (251 / 20)" and m20: "ema ! 20 = Finite (27 / 2)"
    using late [rule_format, of 20] e20 by simp_all
  from run cols s18 s19 s20 m18 m19 m20 show ?thesis by blast
qed

end
